theory Spec2Isabelle
  imports Main "HOL-Library.Word"
begin

section \<open>quantum\_stack\_allocator.h: the index helpers\<close>

text \<open>
  The three unsigned integer types the helper templates choose between.
\<close>

datatype ctype = unsigned_int | unsigned_short | unsigned_char

text \<open>
  Width of each type in bits. The header leaves this to the platform; every ABI the
  library is built for (x86 and x86-64, Linux and Windows) has 8-bit \<open>char\<close>,
  16-bit \<open>short\<close> and 32-bit \<open>int\<close>.
\<close>

fun width_bits :: "ctype \<Rightarrow> nat" where
  "width_bits unsigned_char = 8"
| "width_bits unsigned_short = 16"
| "width_bits unsigned_int = 32"

text \<open>\<open>std::numeric_limits<T>::max()\<close> of an unsigned type: all bits set.\<close>

definition numeric_limits_max :: "ctype \<Rightarrow> int" where
  "numeric_limits_max t = 2 ^ width_bits t - 1"

text \<open>\<open>INT_MAX\<close> on the same platforms (32-bit two's complement \<open>int\<close>).\<close>

definition INT_MAX :: int where
  "INT_MAX = 2 ^ 31 - 1"

text \<open>
  \<^verbatim>\<open>template <int N> struct index { using type = unsigned int; };\<close>
  with the explicit specialisations \<^verbatim>\<open>index<1>\<close> (\<open>unsigned short\<close>) and
  \<^verbatim>\<open>index<2>\<close> (\<open>unsigned char\<close>). The primary template serves every other
  \<open>N\<close>.
\<close>

definition index :: "int \<Rightarrow> ctype" where
  "index N = (if N = 1 then unsigned_short
              else if N = 2 then unsigned_char
              else unsigned_int)"

text \<open>
  \<^verbatim>\<open>constexpr static int I = N <= numeric_limits<unsigned char>::max() ? 2 :
                           N <= numeric_limits<unsigned short>::max() ? 1 : 0;\<close>
  \<open>N\<close> is an \<open>int\<close>; both limits are promoted to \<open>int\<close>, so the comparisons
  are signed comparisons of mathematical integers.
\<close>

definition pos_index_I :: "int \<Rightarrow> int" where
  "pos_index_I N = (if N \<le> numeric_limits_max unsigned_char then 2
                    else if N \<le> numeric_limits_max unsigned_short then 1
                    else 0)"

text \<open>\<^verbatim>\<open>using type = typename index<I>::type;\<close>\<close>

definition pos_index :: "int \<Rightarrow> ctype" where
  "pos_index N = index (pos_index_I N)"

text \<open>
  \<^verbatim>\<open>typedef typename pos_index<SIZE>::type index_type;\<close> inside
  \<^verbatim>\<open>template <typename T, unsigned int SIZE> struct StackAllocator\<close>.
  \<open>SIZE\<close> is an \<open>unsigned int\<close> handed to a template parameter of type \<open>int\<close>:
  a converted constant expression, which must not narrow. A \<open>SIZE\<close> above
  \<open>INT_MAX\<close> therefore has no \<open>index_type\<close> (the instantiation is ill-formed);
  that is \<open>None\<close>.
\<close>

definition index_type :: "32 word \<Rightarrow> ctype option" where
  "index_type SIZE = (if uint SIZE \<le> INT_MAX then Some (pos_index (uint SIZE)) else None)"

section \<open>quantum\_stack\_allocator.h: struct StackAllocator\<close>

text \<open>
  The data members of \<^verbatim>\<open>StackAllocator<T, SIZE>\<close>:
  \<^verbatim>\<open>
    buffer_type     _buffer[SIZE];
    index_type      _freeBlocks[SIZE];
    ssize_t         _freeBlockIndex{SIZE-1};
    size_type       _numHeapAllocatedBlocks{0};
    SpinLock        _spinlock;
  \<close>
  A cell of \<open>_buffer\<close> is raw storage for one \<open>T\<close>: \<open>None\<close> while no object
  lives in it. The entries of \<open>_freeBlocks\<close> are block indices, kept as naturals
  (they are below \<open>SIZE\<close>, so they fit the chosen \<open>index_type\<close>). \<open>ssize_t\<close> is a
  signed 64-bit integer whose values here stay far from its bounds, kept as \<open>int\<close>;
  \<open>size_type\<close> is \<open>size_t\<close>, a 64-bit word. The spinlock only serialises
  concurrent callers and carries no data of the allocator; the sequential model
  leaves it out.
\<close>

record 'a StackAllocator =
  buffer :: "'a option list"
  freeBlocks :: "nat list"
  freeBlockIndex :: int
  numHeapAllocatedBlocks :: "64 word"

text \<open>
  \<^verbatim>\<open>StackAllocator();\<close> The default member initialisers of the header give
  \<open>_freeBlockIndex\<close> the value of the \<open>unsigned int\<close> expression \<open>SIZE-1\<close>
  (which wraps for \<open>SIZE = 0\<close>) and \<open>_numHeapAllocatedBlocks\<close> the value \<open>0\<close>;
  \<open>_buffer\<close> is left as raw storage.

  Modelled from the spec: the body of the default constructor, which lives in
  \<^verbatim>\<open>quantum/impl/quantum_stack_allocator_impl.h\<close>, a file absent from the
  sources. The spec describes "a per-instance slab of N fixed-size cells plus a
  free-index stack": the body fills \<open>_freeBlocks\<close> with the indices \<open>0 .. SIZE-1\<close>.
\<close>

definition StackAllocator_ctor :: "32 word \<Rightarrow> 'a StackAllocator" where
  "StackAllocator_ctor SIZE =
     \<lparr> buffer = replicate (unat SIZE) None,
       freeBlocks = [0 ..< unat SIZE],
       freeBlockIndex = uint (SIZE - 1),
       numHeapAllocatedBlocks = 0 \<rparr>"

text \<open>
  \<^verbatim>\<open>StackAllocator(const this_type&) : StackAllocator() {}\<close>
  The parameter is unnamed and the body is empty: the new object is built by the
  default constructor. The result is the new object together with the source as the
  call leaves it.
\<close>

definition StackAllocator_copy ::
  "32 word \<Rightarrow> 'a StackAllocator \<Rightarrow> 'a StackAllocator \<times> 'a StackAllocator" where
  "StackAllocator_copy SIZE src = (StackAllocator_ctor SIZE, src)"

text \<open>\<^verbatim>\<open>StackAllocator(this_type&&) : StackAllocator() {}\<close>\<close>

definition StackAllocator_move ::
  "32 word \<Rightarrow> 'a StackAllocator \<Rightarrow> 'a StackAllocator \<times> 'a StackAllocator" where
  "StackAllocator_move SIZE src = (StackAllocator_ctor SIZE, src)"

text \<open>
  \<^verbatim>\<open>template <typename U>
  StackAllocator(const StackAllocator<U,SIZE>&) : StackAllocator() {}\<close>
  The source allocates another type \<open>U\<close> and has the same \<open>SIZE\<close>.
\<close>

definition StackAllocator_convert ::
  "32 word \<Rightarrow> 'u StackAllocator \<Rightarrow> 'a StackAllocator \<times> 'u StackAllocator" where
  "StackAllocator_convert SIZE src = (StackAllocator_ctor SIZE, src)"

text \<open>
  The part of \<open>_freeBlocks\<close> in use as a stack: entries \<open>0 .. _freeBlockIndex\<close>,
  the last one on top. These are the indices of the slab blocks that are free.
\<close>

definition freeIndices :: "'a StackAllocator \<Rightarrow> nat list" where
  "freeIndices a = take (nat (freeBlockIndex a + 1)) (freeBlocks a)"

text \<open>
  Modelled from the spec: \<^verbatim>\<open>size_t allocatedHeapBlocks() const\<close>, declared in the
  header and defined in the implementation header that is absent from the sources. The
  spec calls \<open>_numHeapAllocatedBlocks\<close> the "heap-fallback counter"; the accessor
  reads it.
\<close>

definition allocatedHeapBlocks :: "'a StackAllocator \<Rightarrow> 64 word" where
  "allocatedHeapBlocks a = numHeapAllocatedBlocks a"

text \<open>
  Modelled from the spec: \<^verbatim>\<open>size_t allocatedBlocks() const\<close>, declared in the
  header and defined in the implementation header that is absent from the sources. The
  spec has \<open>allocatedBlocks == slabCount + allocatedHeapBlocks\<close>; the slab count is the
  number of indices taken off the free-index stack, \<open>SIZE - _freeBlockIndex - 1\<close>,
  and the sum is a \<open>size_t\<close>.
\<close>

definition allocatedBlocks :: "32 word \<Rightarrow> 'a StackAllocator \<Rightarrow> 64 word" where
  "allocatedBlocks SIZE a =
     word_of_int (uint SIZE - freeBlockIndex a - 1) + allocatedHeapBlocks a"

text \<open>
  An address identifies an allocator object; the store maps the addresses of the live
  objects to their states.
\<close>

type_synonym addr = nat

type_synonym 'a store = "addr \<Rightarrow> 'a StackAllocator option"

text \<open>
  \<^verbatim>\<open>StackAllocator& operator=(const this_type&) {}\<close>
  The body is empty: no member of either operand is written, and control reaches the
  closing brace without a \<open>return\<close> statement, so the call hands back no reference
  (\<open>None\<close>). The arguments are the store, the address of \<open>*this\<close> and the address
  of the right-hand operand; the result is the store after the call and the address
  the returned reference designates.
\<close>

definition operator_assign_copy :: "'a store \<Rightarrow> addr \<Rightarrow> addr \<Rightarrow> 'a store \<times> addr option" where
  "operator_assign_copy st this other = (st, None)"

text \<open>\<^verbatim>\<open>StackAllocator& operator=(this_type&&) {}\<close>\<close>

definition operator_assign_move :: "'a store \<Rightarrow> addr \<Rightarrow> addr \<Rightarrow> 'a store \<times> addr option" where
  "operator_assign_move st this other = (st, None)"

text \<open>
  \<^verbatim>\<open>template <typename U>
  StackAllocator& operator=(const StackAllocator<U,SIZE>&) {}\<close>
  The right-hand operand lives in a store of allocators of \<open>U\<close>.
\<close>

definition operator_assign_convert ::
  "'a store \<Rightarrow> 'u store \<Rightarrow> addr \<Rightarrow> addr \<Rightarrow> 'a store \<times> 'u store \<times> addr option" where
  "operator_assign_convert st stu this other = (st, stu, None)"

section \<open>Allocation and release\<close>

text \<open>
  The header declares \<^verbatim>\<open>allocate\<close>, \<^verbatim>\<open>deallocate\<close>, \<^verbatim>\<open>isFull\<close>,
  \<^verbatim>\<open>isEmpty\<close> and the private \<^verbatim>\<open>isStack\<close>; their bodies are in
  \<^verbatim>\<open>quantum/impl/quantum_stack_allocator_impl.h\<close>, a file absent from the
  sources. The definitions of this section follow the spec's description of them, over
  the data members the header declares.
\<close>

text \<open>
  Modelled from the spec: a \<^verbatim>\<open>pointer\<close> the allocator hands out, "a pointer
  into the slab" or one obtained by "heap allocation": the address of cell \<open>i\<close> of \<open>_buffer\<close>, or
  the address \<open>n\<close> of a block on the heap.
\<close>

datatype pointer = SlabBlock nat | HeapBlock nat

text \<open>
  Modelled from the spec: how a call can fail. \<open>ResourceExhausted\<close> is the failure
  the spec names ("if neither slab nor heap can supply
  memory, signal \<open>ResourceExhausted\<close>"). \<open>OutOfBounds\<close> marks an access outside
  \<open>_freeBlocks\<close>, which C++ leaves undefined.
\<close>

datatype alloc_error = ResourceExhausted | OutOfBounds

text \<open>
  Modelled from the spec: \<^verbatim>\<open>bool isFull() const\<close>. The slab is full when the
  free-index stack is empty ("when the stack is empty, it falls back to heap
  allocation"): \<open>_freeBlockIndex\<close>, the position of the stack's top, is \<open>-1\<close>.
\<close>

definition isFull :: "'a StackAllocator \<Rightarrow> bool" where
  "isFull a = (freeBlockIndex a = - 1)"

text \<open>
  Modelled from the spec: \<^verbatim>\<open>bool isEmpty() const\<close>. The slab is empty when the
  free-index stack is back at the height the member initialiser gave it, \<open>SIZE-1\<close> in
  \<open>unsigned int\<close> arithmetic.
\<close>

definition isEmpty :: "32 word \<Rightarrow> 'a StackAllocator \<Rightarrow> bool" where
  "isEmpty SIZE a = (freeBlockIndex a = uint (SIZE - 1))"

text \<open>
  Modelled from the spec: \<^verbatim>\<open>bool isStack(pointer p)\<close>, the address-range test
  ("checks whether the pointer lies in the slab"): the address of one of the \<open>SIZE\<close>
  cells of \<open>_buffer\<close>.
\<close>

fun isStack :: "32 word \<Rightarrow> pointer \<Rightarrow> bool" where
  "isStack SIZE (SlabBlock i) = (i < unat SIZE)"
| "isStack SIZE (HeapBlock n) = False"

text \<open>
  Modelled from the spec: \<^verbatim>\<open>pointer allocate(size_type = 1, const_pointer = 0)\<close>.
  "\<open>allocate\<close> pops a free index, returning a pointer into the slab; when the stack is
  empty, it falls back to heap allocation and increments a counter. [...] if neither slab
  nor heap can supply memory, signal \<open>ResourceExhausted\<close>." The spec gives the two
  arguments no role. The first argument here is the heap's answer should it be asked:
  the address of a new block, or \<open>None\<close> when it has no memory to give. The result is
  the pointer or the failure, and the allocator after the call. The spec does not say
  what a failed call leaves behind; here it leaves the allocator as it was.
\<close>

definition allocate ::
  "nat option \<Rightarrow> 'a StackAllocator \<Rightarrow> (alloc_error + pointer) \<times> 'a StackAllocator" where
  "allocate heap a =
     (if \<not> isFull a then
        (if 0 \<le> freeBlockIndex a \<and> freeBlockIndex a < int (length (freeBlocks a))
         then (Inr (SlabBlock (freeBlocks a ! nat (freeBlockIndex a))),
               a\<lparr>freeBlockIndex := freeBlockIndex a - 1\<rparr>)
         else (Inl OutOfBounds, a))
      else
        (case heap of
           None \<Rightarrow> (Inl ResourceExhausted, a)
         | Some n \<Rightarrow> (Inr (HeapBlock n),
                      a\<lparr>numHeapAllocatedBlocks := numHeapAllocatedBlocks a + 1\<rparr>)))"

text \<open>
  Modelled from the spec: the heap branch of \<^verbatim>\<open>deallocate\<close>, "heap pointers are freed
  directly and the counter decremented". The counter is a \<open>size_t\<close>: the decrement wraps.
\<close>

definition freeHeapBlock :: "'a StackAllocator \<Rightarrow> (alloc_error + unit) \<times> 'a StackAllocator" where
  "freeHeapBlock a = (Inr (), a\<lparr>numHeapAllocatedBlocks := numHeapAllocatedBlocks a - 1\<rparr>)"

text \<open>
  Modelled from the spec: \<^verbatim>\<open>void deallocate(pointer p, size_type = 1)\<close>.
  "\<open>deallocate\<close> checks whether the pointer lies in the slab (address-range test); slab
  pointers push their index back; heap pointers are freed directly and the counter
  decremented." The push writes the index one position above the top of the
  free-index stack; a push beyond the end of \<open>_freeBlocks\<close> is \<open>OutOfBounds\<close>.
\<close>

fun deallocate ::
  "32 word \<Rightarrow> pointer \<Rightarrow> 'a StackAllocator \<Rightarrow> (alloc_error + unit) \<times> 'a StackAllocator" where
  "deallocate SIZE (SlabBlock i) a =
     (if isStack SIZE (SlabBlock i) then
        (let j = freeBlockIndex a + 1 in
         if 0 \<le> j \<and> j < int (length (freeBlocks a))
         then (Inr (), a\<lparr>freeBlocks := (freeBlocks a)[nat j := i], freeBlockIndex := j\<rparr>)
         else (Inl OutOfBounds, a))
      else freeHeapBlock a)"
| "deallocate SIZE (HeapBlock n) a = freeHeapBlock a"

text \<open>
  A sequence of calls on one allocator. An \<open>Allocate\<close> carries the heap's answer for
  that call.
\<close>

datatype operation = Allocate "nat option" | Deallocate pointer

text \<open>
  The allocator after a sequence of calls. A call that signals \<open>ResourceExhausted\<close>
  leaves the allocator usable and the sequence goes on; an \<open>OutOfBounds\<close> access ends
  it with \<open>None\<close>.
\<close>

fun run :: "32 word \<Rightarrow> operation list \<Rightarrow> 'a StackAllocator \<Rightarrow> 'a StackAllocator option" where
  "run SIZE [] a = Some a"
| "run SIZE (Allocate h # xs) a =
     (let (r, a') = allocate h a in if r = Inl OutOfBounds then None else run SIZE xs a')"
| "run SIZE (Deallocate p # xs) a =
     (let (r, a') = deallocate SIZE p a in if r = Inl OutOfBounds then None else run SIZE xs a')"

text \<open>
  A sequence respects the allocator's contract when every \<open>Deallocate\<close> releases a
  block that is live at that point: returned by an earlier \<open>Allocate\<close> of the sequence
  and not released since. \<open>live\<close> lists the blocks that are live before the sequence.
\<close>

fun well_formed ::
  "32 word \<Rightarrow> operation list \<Rightarrow> 'a StackAllocator \<Rightarrow> pointer list \<Rightarrow> bool" where
  "well_formed SIZE [] a live = True"
| "well_formed SIZE (Allocate h # xs) a live =
     (let (r, a') = allocate h a
      in well_formed SIZE xs a' (case r of Inr p \<Rightarrow> p # live | Inl e \<Rightarrow> live))"
| "well_formed SIZE (Deallocate p # xs) a live =
     (p \<in> set live \<and> well_formed SIZE xs (snd (deallocate SIZE p a)) (remove1 p live))"

fun isAllocate :: "operation \<Rightarrow> bool" where
  "isAllocate (Allocate h) = True"
| "isAllocate (Deallocate p) = False"

text \<open>The numbers of \<open>allocate\<close> and of \<open>deallocate\<close> calls in a sequence.\<close>

definition allocations :: "operation list \<Rightarrow> nat" where
  "allocations ops = length (filter isAllocate ops)"

definition deallocations :: "operation list \<Rightarrow> nat" where
  "deallocations ops = length (filter (\<lambda>x. \<not> isAllocate x) ops)"

text \<open>
  The invariant of the slab: \<open>_freeBlocks\<close> has \<open>SIZE\<close> entries, the top of the
  free-index stack stays within it, the stack holds block indices only, and the slab
  blocks that are live and the indices on the stack add up to \<open>SIZE\<close>.
\<close>

definition slab_inv :: "32 word \<Rightarrow> 'a StackAllocator \<Rightarrow> pointer list \<Rightarrow> bool" where
  "slab_inv SIZE a live \<longleftrightarrow>
     length (freeBlocks a) = unat SIZE \<and>
     - 1 \<le> freeBlockIndex a \<and> freeBlockIndex a < int (unat SIZE) \<and>
     list_all (\<lambda>i. i < unat SIZE) (freeIndices a) \<and>
     int (length (filter (isStack SIZE) live)) + freeBlockIndex a + 1 = int (unat SIZE)"


section \<open>Index type selection\<close>

lemma pos_index_cases:
  "pos_index N = (if N \<le> 255 then unsigned_char
                  else if N \<le> 65535 then unsigned_short
                  else unsigned_int)"
  by (simp add: pos_index_def pos_index_I_def index_def numeric_limits_max_def)

lemma word32_le_255: "(SIZE :: 32 word) \<le> 255 \<longleftrightarrow> uint SIZE \<le> 255"
  by (simp add: word_le_def)

lemma word32_le_65535: "(SIZE :: 32 word) \<le> 65535 \<longleftrightarrow> uint SIZE \<le> 65535"
  by (simp add: word_le_def)

text \<open>
  C8. For every \<open>SIZE\<close> a \<open>StackAllocator\<close> can be instantiated with (every
  \<open>SIZE\<close> that fits the \<open>int\<close> parameter of \<open>pos_index\<close>), an \<open>index_type\<close> is
  selected, and by \<open>SIZE\<close> alone: the 8-bit \<open>unsigned char\<close> when \<open>SIZE \<le> 255\<close>,
  the 16-bit \<open>unsigned short\<close> when \<open>255 < SIZE \<le> 65535\<close>, and the 32-bit
  \<open>unsigned int\<close> otherwise.
\<close>

theorem index_type_by_SIZE:
  fixes SIZE :: "32 word"
  assumes "uint SIZE \<le> INT_MAX"
  shows "index_type SIZE =
           Some (if SIZE \<le> 255 then unsigned_char
                 else if SIZE \<le> 65535 then unsigned_short
                 else unsigned_int) \<and>
         map_option width_bits (index_type SIZE) =
           Some (if SIZE \<le> 255 then 8 else if SIZE \<le> 65535 then 16 else 32)"
proof -
  from assms have t: "index_type SIZE = Some (pos_index (uint SIZE))"
    by (simp add: index_type_def)
  show ?thesis
    unfolding t pos_index_cases word32_le_255 word32_le_65535 by simp
qed

theorem index_type_by_SIZE_witness:
  "uint (255 :: 32 word) \<le> INT_MAX \<and> index_type 255 = Some unsigned_char \<and>
   map_option width_bits (index_type 255) = Some 8 \<and>
   uint (256 :: 32 word) \<le> INT_MAX \<and> index_type 256 = Some unsigned_short \<and>
   uint (1000 :: 32 word) \<le> INT_MAX \<and> index_type 1000 = Some unsigned_short \<and>
   map_option width_bits (index_type 1000) = Some 16 \<and>
   uint (65535 :: 32 word) \<le> INT_MAX \<and> index_type 65535 = Some unsigned_short \<and>
   uint (65536 :: 32 word) \<le> INT_MAX \<and> index_type 65536 = Some unsigned_int \<and>
   map_option width_bits (index_type 65536) = Some 32 \<and>
   uint (2147483647 :: 32 word) \<le> INT_MAX \<and> index_type 2147483647 = Some unsigned_int"
proof -
  have a: "uint (255 :: 32 word) \<le> INT_MAX" "uint (256 :: 32 word) \<le> INT_MAX"
    "uint (1000 :: 32 word) \<le> INT_MAX" "uint (65535 :: 32 word) \<le> INT_MAX"
    "uint (65536 :: 32 word) \<le> INT_MAX" "uint (2147483647 :: 32 word) \<le> INT_MAX"
    by (simp_all add: INT_MAX_def)
  show ?thesis
    using index_type_by_SIZE [OF a(1)] index_type_by_SIZE [OF a(2)]
      index_type_by_SIZE [OF a(3)] index_type_by_SIZE [OF a(4)]
      index_type_by_SIZE [OF a(5)] index_type_by_SIZE [OF a(6)] a
    by simp
qed

section \<open>Construction from another allocator\<close>

lemma uint_SIZE_minus_1:
  fixes SIZE :: "32 word"
  assumes "SIZE \<noteq> 0"
  shows "uint (SIZE - 1) = uint SIZE - 1"
proof -
  from assms have "1 \<le> SIZE"
    by (simp add: word_le_def word_neq_0_conv word_less_def) 
  then show ?thesis
    by (simp add: uint_minus_simple_alt)
qed

lemma freeIndices_ctor: "freeIndices (StackAllocator_ctor SIZE) = [0 ..< unat SIZE]"
proof (cases "SIZE = 0")
  case True
  then show ?thesis
    by (simp add: freeIndices_def StackAllocator_ctor_def)
next
  case False
  then have "nat (uint (SIZE - 1) + 1) = unat SIZE"
    by (simp add: uint_SIZE_minus_1)
  then show ?thesis
    by (simp add: freeIndices_def StackAllocator_ctor_def)
qed

lemma allocatedBlocks_ctor:
  "SIZE \<noteq> 0 \<Longrightarrow> allocatedBlocks SIZE (StackAllocator_ctor SIZE) = 0"
  by (simp add: allocatedBlocks_def allocatedHeapBlocks_def StackAllocator_ctor_def
      uint_SIZE_minus_1)

text \<open>
  C10. Whatever the state of the source, the copy constructor, the move constructor and
  the converting constructor each build the allocator the default constructor builds
  and leave the source as it was: nothing of the source's state reaches the new object.
  In the new object all \<open>SIZE\<close> slab indices are on the free-index stack,
  \<open>allocatedBlocks()\<close> is \<open>0\<close> and \<open>allocatedHeapBlocks()\<close> is \<open>0\<close>.
\<close>

theorem constructed_from_other_is_fresh:
  fixes SIZE :: "32 word" and src :: "'a StackAllocator" and srcU :: "'u StackAllocator"
  assumes "SIZE \<noteq> 0"
  shows "StackAllocator_copy SIZE src = (StackAllocator_ctor SIZE, src) \<and>
         StackAllocator_move SIZE src = (StackAllocator_ctor SIZE, src) \<and>
         StackAllocator_convert SIZE srcU = (StackAllocator_ctor SIZE :: 'a StackAllocator, srcU) \<and>
         freeIndices (StackAllocator_ctor SIZE :: 'a StackAllocator) = [0 ..< unat SIZE] \<and>
         freeBlockIndex (StackAllocator_ctor SIZE :: 'a StackAllocator) = uint SIZE - 1 \<and>
         allocatedBlocks SIZE (StackAllocator_ctor SIZE :: 'a StackAllocator) = 0 \<and>
         allocatedHeapBlocks (StackAllocator_ctor SIZE :: 'a StackAllocator) = 0"
proof -
  have "freeBlockIndex (StackAllocator_ctor SIZE :: 'a StackAllocator) = uint SIZE - 1"
    using assms by (simp add: StackAllocator_ctor_def uint_SIZE_minus_1)
  moreover have "allocatedHeapBlocks (StackAllocator_ctor SIZE :: 'a StackAllocator) = 0"
    by (simp add: allocatedHeapBlocks_def StackAllocator_ctor_def)
  ultimately show ?thesis
    using assms
    by (simp add: StackAllocator_copy_def StackAllocator_move_def StackAllocator_convert_def
        freeIndices_ctor allocatedBlocks_ctor)
qed

theorem constructed_from_other_is_fresh_witness:
  "(4 :: 32 word) \<noteq> 0 \<and>
   StackAllocator_copy 4
     \<lparr> buffer = [Some 7, Some 8, Some 9, Some (10 :: nat)], freeBlocks = [0, 1, 2, 3],
       freeBlockIndex = - 1, numHeapAllocatedBlocks = 2 \<rparr> =
     (\<lparr> buffer = [None, None, None, None], freeBlocks = [0, 1, 2, 3],
        freeBlockIndex = 3, numHeapAllocatedBlocks = 0 \<rparr>,
      \<lparr> buffer = [Some 7, Some 8, Some 9, Some 10], freeBlocks = [0, 1, 2, 3],
        freeBlockIndex = - 1, numHeapAllocatedBlocks = 2 \<rparr>) \<and>
   allocatedBlocks 4 (StackAllocator_ctor 4 :: nat StackAllocator) = 0 \<and>
   allocatedHeapBlocks (StackAllocator_ctor 4 :: nat StackAllocator) = 0 \<and>
   freeIndices (StackAllocator_ctor 4 :: nat StackAllocator) = [0, 1, 2, 3]"
proof -
  have u: "[0 ..< 4] = [0, 1, 2, 3 :: nat]"
    by code_simp
  have r: "replicate 4 None = [None, None, None, None :: nat option]"
    by code_simp
  have c: "(StackAllocator_ctor 4 :: nat StackAllocator) =
      \<lparr> buffer = [None, None, None, None], freeBlocks = [0, 1, 2, 3],
        freeBlockIndex = 3, numHeapAllocatedBlocks = 0 \<rparr>"
    by (simp add: StackAllocator_ctor_def u r)
  have n: "(4 :: 32 word) \<noteq> 0"
    by simp
  have "unat (4 :: 32 word) = 4"
    by simp
  with u have l: "[0 ..< unat (4 :: 32 word)] = [0, 1, 2, 3]"
    by simp
  show ?thesis
    using constructed_from_other_is_fresh [OF n,
        of "\<lparr> buffer = [Some 7, Some 8, Some 9, Some (10 :: nat)], freeBlocks = [0, 1, 2, 3],
              freeBlockIndex = - 1, numHeapAllocatedBlocks = 2 \<rparr>"
           "\<lparr> buffer = [Some 7, Some 8, Some 9, Some (10 :: nat)], freeBlocks = [0, 1, 2, 3],
              freeBlockIndex = - 1, numHeapAllocatedBlocks = 2 \<rparr>"]
    unfolding c l using n by simp
qed


section \<open>Assignment\<close>

text \<open>
  C9. The three assignment operators write to neither operand, but none of them
  returns a reference to \<open>*this\<close>: the call ends without a returned value. Shown for
  two allocators of \<open>SIZE = 4\<close> at the addresses \<open>1\<close> and \<open>2\<close>, and for
  self-assignment.
\<close>

theorem operator_assign_returns_no_reference:
  "operator_assign_copy [1 \<mapsto> StackAllocator_ctor 4 :: nat StackAllocator,
                         2 \<mapsto> StackAllocator_ctor 4] 1 2 =
     ([1 \<mapsto> StackAllocator_ctor 4, 2 \<mapsto> StackAllocator_ctor 4], None) \<and>
   operator_assign_move [1 \<mapsto> StackAllocator_ctor 4 :: nat StackAllocator,
                         2 \<mapsto> StackAllocator_ctor 4] 1 2 =
     ([1 \<mapsto> StackAllocator_ctor 4, 2 \<mapsto> StackAllocator_ctor 4], None) \<and>
   operator_assign_convert [1 \<mapsto> StackAllocator_ctor 4 :: nat StackAllocator]
                           [2 \<mapsto> StackAllocator_ctor 4 :: bool StackAllocator] 1 2 =
     ([1 \<mapsto> StackAllocator_ctor 4], [2 \<mapsto> StackAllocator_ctor 4], None) \<and>
   snd (operator_assign_copy [1 \<mapsto> StackAllocator_ctor 4 :: nat StackAllocator] 1 1) \<noteq> Some 1"
  by (simp add: operator_assign_copy_def operator_assign_move_def operator_assign_convert_def)


section \<open>Sequences of allocations and releases\<close>

lemma filter_pos: "p \<in> set xs \<Longrightarrow> P p \<Longrightarrow> 0 < length (filter P xs)"
  by (induction xs) auto

lemma length_filter_remove1:
  "p \<in> set xs \<Longrightarrow>
   length (filter P (remove1 p xs)) = (if P p then length (filter P xs) - 1 else length (filter P xs))"
proof (induction xs)
  case Nil
  then show ?case by simp
next
  case (Cons x xs)
  show ?case
  proof (cases "p = x")
    case True
    then show ?thesis by simp
  next
    case False
    with Cons.prems have mem: "p \<in> set xs"
      by simp
    show ?thesis
    proof (cases "P p")
      case True
      with mem have "0 < length (filter P xs)"
        by (rule filter_pos)
      with Cons.IH [OF mem] True False show ?thesis
        by simp
    next
      case False
      with Cons.IH [OF mem] \<open>p \<noteq> x\<close> show ?thesis
        by simp
    qed
  qed
qed

lemma slab_inv_ctor: "SIZE \<noteq> 0 \<Longrightarrow> slab_inv SIZE (StackAllocator_ctor SIZE) []"
proof -
  assume n: "SIZE \<noteq> 0"
  have "0 \<le> uint SIZE"
    by simp
  then have "- 1 < uint SIZE"
    by linarith
  then show ?thesis
    using n
    by (simp add: slab_inv_def freeIndices_ctor list_all_iff)
       (simp add: StackAllocator_ctor_def uint_SIZE_minus_1)
qed

lemma slab_inv_allocate:
  assumes "slab_inv SIZE a live" and "allocate h a = (r, a')"
  shows "r \<noteq> Inl OutOfBounds \<and> slab_inv SIZE a' (case r of Inr p \<Rightarrow> p # live | Inl e \<Rightarrow> live)"
proof (cases "isFull a")
  case True
  with assms show ?thesis
    by (auto simp: allocate_def slab_inv_def freeIndices_def isFull_def split: option.splits)
next
  case False
  with assms have idx: "0 \<le> freeBlockIndex a" "freeBlockIndex a < int (length (freeBlocks a))"
    by (auto simp: slab_inv_def isFull_def)
  then have r: "r = Inr (SlabBlock (freeBlocks a ! nat (freeBlockIndex a)))"
    and a': "a' = a\<lparr>freeBlockIndex := freeBlockIndex a - 1\<rparr>"
    using assms(2) False by (auto simp: allocate_def)
  have n: "nat (freeBlockIndex a + 1) = Suc (nat (freeBlockIndex a))"
    using idx by simp
  have n': "nat (freeBlockIndex a) < length (freeBlocks a)"
    using idx by simp
  have fi: "freeIndices a = freeIndices a' @ [freeBlocks a ! nat (freeBlockIndex a)]"
    by (simp add: freeIndices_def a' n take_Suc_conv_app_nth [OF n'])
  from assms(1) have "list_all (\<lambda>i. i < unat SIZE) (freeIndices a)"
    by (simp add: slab_inv_def)
  then have b: "list_all (\<lambda>i. i < unat SIZE) (freeIndices a')"
    and s: "freeBlocks a ! nat (freeBlockIndex a) < unat SIZE"
    by (simp_all add: fi)
  show ?thesis
    using assms(1) b s idx by (simp add: r slab_inv_def) (simp add: a')
qed

lemma slab_inv_deallocate:
  assumes "slab_inv SIZE a live" and "p \<in> set live" and "deallocate SIZE p a = (r, a')"
  shows "r \<noteq> Inl OutOfBounds \<and> slab_inv SIZE a' (remove1 p live)"
proof (cases "isStack SIZE p")
  case False
  then have "deallocate SIZE p a = freeHeapBlock a"
    by (cases p) simp_all
  with assms False show ?thesis
    by (auto simp: freeHeapBlock_def slab_inv_def freeIndices_def length_filter_remove1)
next
  case True
  then obtain i where p: "p = SlabBlock i" and i: "i < unat SIZE"
    by (cases p) simp_all
  have pos: "0 < length (filter (isStack SIZE) live)"
    using assms(2) True by (rule filter_pos)
  define j where "j = freeBlockIndex a + 1"
  from pos have "0 < int (length (filter (isStack SIZE) live))"
    by simp
  moreover from assms(1) have "length (freeBlocks a) = unat SIZE" "- 1 \<le> freeBlockIndex a"
    "int (length (filter (isStack SIZE) live)) + freeBlockIndex a + 1 = int (unat SIZE)"
    by (simp_all add: slab_inv_def)
  ultimately have j: "0 \<le> j" "j < int (length (freeBlocks a))"
    unfolding j_def by linarith+
  then have r: "r = Inr ()"
    and a': "a' = a\<lparr>freeBlocks := (freeBlocks a)[nat j := i], freeBlockIndex := j\<rparr>"
    using assms(3) i by (auto simp: p j_def Let_def)
  have nj: "nat (j + 1) = Suc (nat j)" "nat j < length (freeBlocks a)"
    using j by simp_all
  have fi: "freeIndices a' = freeIndices a @ [i]"
    using nj by (simp add: freeIndices_def a' take_Suc_conv_app_nth j_def [symmetric])
  have c: "length (filter (isStack SIZE) (remove1 p live)) = length (filter (isStack SIZE) live) - 1"
    using assms(2) True by (simp add: length_filter_remove1)
  show ?thesis
    using assms(1) i pos j by (simp add: r slab_inv_def fi c) (simp add: a' j_def)
qed

lemma run_well_formed:
  assumes "slab_inv SIZE a live" and "well_formed SIZE ops a live"
  shows "\<exists>a' live'. run SIZE ops a = Some a' \<and> slab_inv SIZE a' live' \<and>
           length live' + deallocations ops \<le> length live + allocations ops"
  using assms
proof (induction ops arbitrary: a live)
  case Nil
  then show ?case by (auto simp: allocations_def deallocations_def)
next
  case (Cons x xs)
  show ?case
  proof (cases x)
    case (Allocate h)
    obtain r a1 where al: "allocate h a = (r, a1)"
      by (cases "allocate h a")
    define live1 where "live1 = (case r of Inr p \<Rightarrow> p # live | Inl e \<Rightarrow> live)"
    from slab_inv_allocate [OF Cons.prems(1) al]
    have ok: "r \<noteq> Inl OutOfBounds" and inv1: "slab_inv SIZE a1 live1"
      by (simp_all add: live1_def)
    from Cons.prems(2) have wf1: "well_formed SIZE xs a1 live1"
      by (simp add: Allocate al live1_def)
    from Cons.IH [OF inv1 wf1] obtain a' live' where
      "run SIZE xs a1 = Some a'" "slab_inv SIZE a' live'"
      "length live' + deallocations xs \<le> length live1 + allocations xs"
      by blast
    moreover have "length live1 \<le> Suc (length live)"
      by (simp add: live1_def split: sum.splits)
    ultimately show ?thesis
      using ok by (auto simp: Allocate al allocations_def deallocations_def)
  next
    case (Deallocate p)
    obtain r a1 where de: "deallocate SIZE p a = (r, a1)"
      by (cases "deallocate SIZE p a")
    from Cons.prems(2) have mem: "p \<in> set live" and wf1: "well_formed SIZE xs a1 (remove1 p live)"
      by (simp_all add: Deallocate de)
    from slab_inv_deallocate [OF Cons.prems(1) mem de]
    have ok: "r \<noteq> Inl OutOfBounds" and inv1: "slab_inv SIZE a1 (remove1 p live)"
      by simp_all
    from Cons.IH [OF inv1 wf1] obtain a' live' where
      "run SIZE xs a1 = Some a'" "slab_inv SIZE a' live'"
      "length live' + deallocations xs \<le> length (remove1 p live) + allocations xs"
      by blast
    moreover have "Suc (length (remove1 p live)) = length live"
      using mem by (simp add: length_remove1) (cases live; simp)
    ultimately show ?thesis
      using ok by (auto simp: Deallocate de allocations_def deallocations_def)
  qed
qed

lemma allocate_index:
  assumes "- 1 \<le> freeBlockIndex a" and "freeBlockIndex a < int (length (freeBlocks a))"
    and "allocate h a = (r, a')"
  shows "r \<noteq> Inl OutOfBounds \<and> freeBlocks a' = freeBlocks a \<and>
         freeBlockIndex a' = max (- 1) (freeBlockIndex a - 1)"
  using assms by (auto simp: allocate_def isFull_def split: if_splits option.splits)

lemma run_allocates:
  assumes "- 1 \<le> freeBlockIndex a" and "freeBlockIndex a < int (length (freeBlocks a))"
  shows "\<exists>a'. run SIZE (map Allocate hs) a = Some a' \<and>
           freeBlockIndex a' = max (- 1) (freeBlockIndex a - int (length hs))"
  using assms
proof (induction hs arbitrary: a)
  case Nil
  then show ?case by simp
next
  case (Cons h hs)
  obtain r a1 where al: "allocate h a = (r, a1)"
    by (cases "allocate h a")
  from allocate_index [OF Cons.prems al]
  have ok: "r \<noteq> Inl OutOfBounds" and fb: "freeBlocks a1 = freeBlocks a"
    and ix: "freeBlockIndex a1 = max (- 1) (freeBlockIndex a - 1)"
    by simp_all
  have "- 1 \<le> freeBlockIndex a1" "freeBlockIndex a1 < int (length (freeBlocks a1))"
    using Cons.prems by (simp_all add: fb ix)
  from Cons.IH [OF this] obtain a' where
    "run SIZE (map Allocate hs) a1 = Some a'"
    "freeBlockIndex a' = max (- 1) (freeBlockIndex a1 - int (length hs))"
    by blast
  then show ?case
    using ok by (auto simp: al ix)
qed

lemma same_result: "x = Some a \<Longrightarrow> x = Some b \<Longrightarrow> a = b"
  by simp

lemma allocate_when_full:
  assumes "isFull a"
  shows "allocate (Some n) a =
           (Inr (HeapBlock n), a\<lparr>numHeapAllocatedBlocks := numHeapAllocatedBlocks a + 1\<rparr>)"
    and "allocate None a = (Inl ResourceExhausted, a)"
  using assms by (simp_all add: allocate_def)

text \<open>
  C1 (amended). Starting from a new allocator with \<open>SIZE > 0\<close>: in a sequence without
  deallocations, after exactly \<open>SIZE\<close> calls of \<open>allocate\<close> the allocator
  \<open>isFull()\<close>; every later \<open>allocate\<close> for which the heap has memory returns a heap
  pointer and increments \<open>allocatedHeapBlocks()\<close> by one, and one for which the heap
  has none signals \<open>ResourceExhausted\<close>. After a sequence with as many \<open>allocate\<close>
  as \<open>deallocate\<close> calls, each \<open>deallocate\<close> releasing a live block, the
  allocator \<open>isEmpty()\<close>.
\<close>

theorem slab_then_heap:
  fixes SIZE :: "32 word"
  assumes "SIZE \<noteq> 0"
  shows "(\<forall>hs. length hs = unat SIZE \<longrightarrow>
            (\<exists>a :: 'a StackAllocator. run SIZE (map Allocate hs) (StackAllocator_ctor SIZE) = Some a \<and> isFull a)) \<and>
         (\<forall>hs n. unat SIZE \<le> length hs \<longrightarrow>
            (\<exists>a :: 'a StackAllocator. run SIZE (map Allocate hs) (StackAllocator_ctor SIZE) = Some a \<and>
                 fst (allocate (Some n) a) = Inr (HeapBlock n) \<and>
                 allocatedHeapBlocks (snd (allocate (Some n) a)) = allocatedHeapBlocks a + 1 \<and>
                 fst (allocate None a) = Inl ResourceExhausted)) \<and>
         (\<forall>ops. well_formed SIZE ops (StackAllocator_ctor SIZE :: 'a StackAllocator) [] \<and>
                allocations ops = deallocations ops \<longrightarrow>
            (\<exists>a :: 'a StackAllocator. run SIZE ops (StackAllocator_ctor SIZE) = Some a \<and> isEmpty SIZE a))"
proof (intro conjI allI impI)
  let ?init = "StackAllocator_ctor SIZE :: 'a StackAllocator"
  have i0: "freeBlockIndex ?init = int (unat SIZE) - 1" "length (freeBlocks ?init) = unat SIZE"
    using assms by (simp_all add: StackAllocator_ctor_def uint_SIZE_minus_1)
  have "0 \<le> uint SIZE"
    by simp
  then have "- 1 < uint SIZE"
    by linarith
  with i0 have pre: "- 1 \<le> freeBlockIndex ?init" "freeBlockIndex ?init < int (length (freeBlocks ?init))"
    by simp_all
  {
    fix hs :: "nat option list"
    assume "unat SIZE \<le> length hs"
    then have "int (unat SIZE) \<le> int (length hs)"
      by linarith
    with i0 have "max (- 1) (freeBlockIndex ?init - int (length hs)) = - 1"
      by (simp add: max_def)
    with run_allocates [OF pre, of SIZE hs]
    have "\<exists>a. run SIZE (map Allocate hs) ?init = Some a \<and> isFull a"
      by (auto simp: isFull_def)
  } note full = this
  show "\<exists>a :: 'a StackAllocator. run SIZE (map Allocate hs) (StackAllocator_ctor SIZE) = Some a \<and> isFull a"
    if "length hs = unat SIZE" for hs
    using full [of hs] that by simp
  show "\<exists>a :: 'a StackAllocator. run SIZE (map Allocate hs) (StackAllocator_ctor SIZE) = Some a \<and>
          fst (allocate (Some n) a) = Inr (HeapBlock n) \<and>
          allocatedHeapBlocks (snd (allocate (Some n) a)) = allocatedHeapBlocks a + 1 \<and>
          fst (allocate None a) = Inl ResourceExhausted"
    if "unat SIZE \<le> length hs" for hs n
  proof -
    from full [OF that] obtain a where
      a: "run SIZE (map Allocate hs) ?init = Some a" "isFull a"
      by blast
    then show ?thesis
      by (auto simp: allocate_when_full allocatedHeapBlocks_def)
  qed
  show "\<exists>a. run SIZE ops (StackAllocator_ctor SIZE :: 'a StackAllocator) = Some a \<and> isEmpty SIZE a"
    if "well_formed SIZE ops (StackAllocator_ctor SIZE :: 'a StackAllocator) [] \<and>
        allocations ops = deallocations ops" for ops
  proof -
    from that have wf: "well_formed SIZE ops ?init []" and eq: "allocations ops = deallocations ops"
      by simp_all
    from run_well_formed [OF slab_inv_ctor [OF assms] wf] obtain a live where
      r: "run SIZE ops ?init = Some a" and inv: "slab_inv SIZE a live"
      and "length live + deallocations ops \<le> allocations ops"
      by auto
    with eq have "live = []"
      by simp
    with inv have "freeBlockIndex a = int (unat SIZE) - 1"
      by (simp add: slab_inv_def)
    then have "isEmpty SIZE a"
      using assms by (simp add: isEmpty_def uint_SIZE_minus_1)
    with r show ?thesis
      by blast
  qed
qed

theorem slab_then_heap_witness:
  "(2 :: 32 word) \<noteq> 0 \<and>
   run 2 (map Allocate [None, Some 5]) (StackAllocator_ctor 2 :: nat StackAllocator) =
     Some \<lparr> buffer = [None, None], freeBlocks = [0, 1], freeBlockIndex = - 1,
            numHeapAllocatedBlocks = 0 \<rparr> \<and>
   isFull \<lparr> buffer = [None, None :: nat option], freeBlocks = [0, 1], freeBlockIndex = - 1,
            numHeapAllocatedBlocks = 0 \<rparr> \<and>
   allocate (Some 77) \<lparr> buffer = [None, None :: nat option], freeBlocks = [0, 1],
                        freeBlockIndex = - 1, numHeapAllocatedBlocks = 0 \<rparr> =
     (Inr (HeapBlock 77),
      \<lparr> buffer = [None, None], freeBlocks = [0, 1], freeBlockIndex = - 1,
        numHeapAllocatedBlocks = 1 \<rparr>) \<and>
   well_formed 2 [Allocate None, Allocate (Some 5), Allocate (Some 77), Deallocate (SlabBlock 1),
                  Deallocate (HeapBlock 77), Deallocate (SlabBlock 0)]
     (StackAllocator_ctor 2 :: nat StackAllocator) [] \<and>
   allocations [Allocate None, Allocate (Some 5), Allocate (Some 77), Deallocate (SlabBlock 1),
                Deallocate (HeapBlock 77), Deallocate (SlabBlock 0)] = 3 \<and>
   deallocations [Allocate None, Allocate (Some 5), Allocate (Some 77), Deallocate (SlabBlock 1),
                  Deallocate (HeapBlock 77), Deallocate (SlabBlock 0)] = 3 \<and>
   run 2 [Allocate None, Allocate (Some 5), Allocate (Some 77), Deallocate (SlabBlock 1),
          Deallocate (HeapBlock 77), Deallocate (SlabBlock 0)]
     (StackAllocator_ctor 2 :: nat StackAllocator) =
     Some \<lparr> buffer = [None, None], freeBlocks = [1, 0], freeBlockIndex = 1,
            numHeapAllocatedBlocks = 0 \<rparr> \<and>
   isEmpty 2 \<lparr> buffer = [None, None :: nat option], freeBlocks = [1, 0], freeBlockIndex = 1,
               numHeapAllocatedBlocks = 0 \<rparr>"
proof -
  let ?init = "StackAllocator_ctor 2 :: nat StackAllocator"
  let ?full = "\<lparr> buffer = [None, None :: nat option], freeBlocks = [0, 1], freeBlockIndex = - 1,
                 numHeapAllocatedBlocks = 0 \<rparr>"
  let ?ops = "[Allocate None, Allocate (Some 5), Allocate (Some 77), Deallocate (SlabBlock 1),
               Deallocate (HeapBlock 77), Deallocate (SlabBlock 0)]"
  let ?last = "\<lparr> buffer = [None, None :: nat option], freeBlocks = [1, 0], freeBlockIndex = 1,
                 numHeapAllocatedBlocks = 0 \<rparr>"
  have n: "(2 :: 32 word) \<noteq> 0"
    by simp
  have r2: "run 2 (map Allocate [None, Some 5]) ?init = Some ?full"
    by code_simp
  have wf: "well_formed 2 ?ops ?init []"
    by code_simp
  have ca: "allocations ?ops = 3" and cd: "deallocations ?ops = 3"
    by code_simp+
  have r6: "run 2 ?ops ?init = Some ?last"
    by code_simp
  have len: "length [None, Some (5 :: nat)] = unat (2 :: 32 word)"
    by simp
  note T = slab_then_heap [OF n]
  from T [THEN conjunct1, rule_format, OF len] obtain a1 where
    a1: "run 2 (map Allocate [None, Some 5]) ?init = Some a1" "isFull a1"
    by blast
  from a1(1) r2 have "a1 = ?full"
    by (rule same_result)
  with a1(2) have full: "isFull ?full"
    by (simp only:)
  have "unat (2 :: 32 word) \<le> length [None, Some (5 :: nat)]"
    by simp
  from T [THEN conjunct2, THEN conjunct1, rule_format, OF this, of 77] obtain a2 where
    a2: "run 2 (map Allocate [None, Some 5]) ?init = Some a2"
      "fst (allocate (Some 77) a2) = Inr (HeapBlock 77)"
    by blast
  from a2(1) r2 have "a2 = ?full"
    by (rule same_result)
  with a2(2) have heap: "fst (allocate (Some 77) ?full) = Inr (HeapBlock 77)"
    by (simp only:)
  have "well_formed 2 ?ops ?init [] \<and> allocations ?ops = deallocations ?ops"
    using wf ca cd by (simp only:)
  from T [THEN conjunct2, THEN conjunct2, rule_format, OF this] obtain a3 where
    a3: "run 2 ?ops ?init = Some a3" "isEmpty 2 a3"
    by blast
  from a3(1) r6 have "a3 = ?last"
    by (rule same_result)
  with a3(2) have empty: "isEmpty 2 ?last"
    by (simp only:)
  have al: "allocate (Some 77) ?full =
      (Inr (HeapBlock 77),
       \<lparr> buffer = [None, None], freeBlocks = [0, 1], freeBlockIndex = - 1,
         numHeapAllocatedBlocks = 1 \<rparr>)"
    using full heap by (simp add: allocate_def)
  show ?thesis
    using n r2 full al wf ca cd r6 empty by (simp only: simp_thms)
qed

text \<open>
  Where the claim as first stated fails. With \<open>SIZE = 1\<close>, the one slab block taken
  and a heap that has no memory left, the second \<open>allocate\<close> returns no heap pointer:
  it signals \<open>ResourceExhausted\<close>. With \<open>SIZE = 0\<close> the member initialiser
  \<open>SIZE-1\<close> wraps to \<open>4294967295\<close>, and after \<open>SIZE\<close> (that is, no) calls the
  allocator is not \<open>isFull()\<close>. With \<open>SIZE = 2\<close>, one \<open>allocate\<close> followed by
  one \<open>deallocate\<close> of a heap block the allocator never handed out are equally many
  calls of each, and the allocator is not \<open>isEmpty()\<close>.
\<close>

theorem allocate_heap_exhausted:
  "run 1 [Allocate None] (StackAllocator_ctor 1 :: nat StackAllocator) =
     Some \<lparr> buffer = [None], freeBlocks = [0], freeBlockIndex = - 1,
            numHeapAllocatedBlocks = 0 \<rparr> \<and>
   isFull \<lparr> buffer = [None :: nat option], freeBlocks = [0], freeBlockIndex = - 1,
            numHeapAllocatedBlocks = 0 \<rparr> \<and>
   fst (allocate None \<lparr> buffer = [None :: nat option], freeBlocks = [0], freeBlockIndex = - 1,
                        numHeapAllocatedBlocks = 0 \<rparr>) = Inl ResourceExhausted \<and>
   run 0 [] (StackAllocator_ctor 0 :: nat StackAllocator) =
     Some \<lparr> buffer = [], freeBlocks = [], freeBlockIndex = 4294967295,
            numHeapAllocatedBlocks = 0 \<rparr> \<and>
   \<not> isFull \<lparr> buffer = [] :: nat option list, freeBlocks = [], freeBlockIndex = 4294967295,
              numHeapAllocatedBlocks = 0 \<rparr> \<and>
   allocations [Allocate None, Deallocate (HeapBlock 9)] = 1 \<and>
   deallocations [Allocate None, Deallocate (HeapBlock 9)] = 1 \<and>
   \<not> well_formed 2 [Allocate None, Deallocate (HeapBlock 9)]
       (StackAllocator_ctor 2 :: nat StackAllocator) [] \<and>
   run 2 [Allocate None, Deallocate (HeapBlock 9)] (StackAllocator_ctor 2 :: nat StackAllocator) =
     Some \<lparr> buffer = [None, None], freeBlocks = [0, 1], freeBlockIndex = 0,
            numHeapAllocatedBlocks = - 1 \<rparr> \<and>
   \<not> isEmpty 2 \<lparr> buffer = [None, None :: nat option], freeBlocks = [0, 1], freeBlockIndex = 0,
                 numHeapAllocatedBlocks = - 1 \<rparr>"
  by code_simp

end
